theory Spec2Isabelle
  imports Main
begin

section \<open>Path model (class FilePath of FileSystem.ts)\<close>

text \<open>
  A JavaScript string is modelled as a \<open>string\<close>: one \<open>char\<close> stands for one code unit,
  so \<open>length\<close>, indexing, \<open>indexOf\<close>, \<open>slice\<close> and \<open>split\<close> count what the source counts.
  \<open>String.prototype.toUpperCase\<close> belongs to the platform and is taken as a parameter
  \<open>up\<close> of \<open>tryParse\<close>; \<open>toUpperCase\<close> below is its behaviour on ASCII text.
\<close>

type_synonym DriveLabel = string

text \<open>The 26 one-letter labels \<open>A\<close> to \<open>Z\<close>, in the order of the source.\<close>

definition DriveLabelValues :: "string list" where
  "DriveLabelValues = map (\<lambda>c. [c]) ''ABCDEFGHIJKLMNOPQRSTUVWXYZ''"

definition isDriveLabel :: "string \<Rightarrow> bool" where
  "isDriveLabel label = (label \<in> set DriveLabelValues)"

definition toUpperCase :: "string \<Rightarrow> string" where
  "toUpperCase s =
     map (\<lambda>c. let n = (of_char c :: nat) in if 97 \<le> n \<and> n \<le> 122 then char_of (n - 32) else c) s"

text \<open>\<open>indexOf\<close> answers \<open>-1\<close> when the character does not occur.\<close>

fun indexOf :: "string \<Rightarrow> char \<Rightarrow> int" where
  "indexOf [] c = - 1"
| "indexOf (x # xs) c =
     (if x = c then 0 else (let i = indexOf xs c in if i < 0 then - 1 else i + 1))"

text \<open>\<open>slice s a b\<close> is \<open>s.slice(a, b)\<close> for \<open>0 \<le> a\<close>, \<open>0 \<le> b\<close>; \<open>slice_from s a\<close> is \<open>s.slice(a)\<close>.\<close>

definition slice :: "'a list \<Rightarrow> nat \<Rightarrow> nat \<Rightarrow> 'a list" where
  "slice s a b = take (b - a) (drop a s)"

definition slice_from :: "'a list \<Rightarrow> nat \<Rightarrow> 'a list" where
  "slice_from s a = drop a s"

text \<open>\<open>split s c\<close> is \<open>s.split(c)\<close> for a one-character separator: the empty string
  splits into one empty piece, and two adjacent separators enclose an empty piece.\<close>

fun split :: "string \<Rightarrow> char \<Rightarrow> string list" where
  "split [] c = [[]]"
| "split (x # xs) c =
     (if x = c then [] # split xs c
      else (let r = split xs c in (x # hd r) # tl r))"

record FilePath =
  drive :: "DriveLabel option"
  pieces :: "string list"
  isAbsolute :: bool

text \<open>
  The loop of the constructor: \<open>acc\<close> is \<open>this.#pieces\<close> so far, \<open>push\<close> appends at the end
  and \<open>pop\<close> removes the last element.
\<close>

fun FilePath_loop :: "bool \<Rightarrow> string list \<Rightarrow> string list \<Rightarrow> string list" where
  "FilePath_loop isAbs [] acc = acc"
| "FilePath_loop isAbs (piece # rest) acc =
     (if piece = ''..'' then
        (if isAbs then
           (if length acc \<noteq> 0 then FilePath_loop isAbs rest (butlast acc)
            else FilePath_loop isAbs rest acc)
         else FilePath_loop isAbs rest (acc @ [''..'']))
      else if piece = ''.'' then FilePath_loop isAbs rest acc
      else FilePath_loop isAbs rest (acc @ [piece]))"

definition FilePath_new :: "DriveLabel option \<Rightarrow> string list \<Rightarrow> bool \<Rightarrow> FilePath" where
  "FilePath_new d ps isAbs =
     (let isAbs' = (d \<noteq> None \<or> isAbs)
      in \<lparr>drive = d, pieces = FilePath_loop isAbs' ps [], isAbsolute = isAbs'\<rparr>)"

text \<open>
  The normalization as the specification words it, one segment at a time: a \<open>.\<close> is dropped;
  on an absolute path a \<open>..\<close> pops the last accumulated segment and does nothing when none
  is accumulated; on a relative path a \<open>..\<close> is kept; any other segment is appended.
\<close>

definition spec_normalize_step :: "bool \<Rightarrow> string list \<Rightarrow> string \<Rightarrow> string list" where
  "spec_normalize_step isAbs acc piece =
     (if piece = ''.'' then acc
      else if piece = ''..'' then
        (if isAbs then (if acc = [] then [] else butlast acc) else acc @ [''..''])
      else acc @ [piece])"

text \<open>Lines 84 to 91 of \<open>tryParse\<close>: what follows the optional drive prefix.\<close>

definition tryParse_rest :: "DriveLabel option \<Rightarrow> string \<Rightarrow> DriveLabel option \<Rightarrow> FilePath" where
  "tryParse_rest drive0 path defaultDrive =
     (let isAbs = (length path = 0 \<or> path ! 0 = CHR ''/'');
          path' = (if isAbs then slice_from path 1 else path);
          drive' = (if isAbs \<and> drive0 = None then defaultDrive else drive0);
          ps = filter (\<lambda>s. length s > 0) (split path' CHR ''/'')
      in FilePath_new drive' ps isAbs)"

definition tryParse :: "(string \<Rightarrow> string) \<Rightarrow> string \<Rightarrow> DriveLabel option \<Rightarrow> FilePath option" where
  "tryParse up path defaultDrive =
     (if length path = 0 then Some (FilePath_new None [] False)
      else if path = ''/'' then Some (FilePath_new None [] True)
      else
        (let colonIndex = indexOf path CHR '':''
         in if colonIndex \<ge> 0 then
              (let driveName = up (slice path 0 (nat colonIndex))
               in if \<not> isDriveLabel driveName then None
                  else Some (tryParse_rest (Some driveName)
                               (slice_from path (nat colonIndex + 1)) defaultDrive))
            else Some (tryParse_rest None path defaultDrive)))"

definition hasDrive :: "FilePath \<Rightarrow> bool" where
  "hasDrive p = (drive p \<noteq> None)"

definition isRelative :: "FilePath \<Rightarrow> bool" where
  "isRelative p = (\<not> isAbsolute p)"

text \<open>The loop of \<open>equals\<close> over two piece sequences of the same length.\<close>

fun equals_loop :: "string list \<Rightarrow> string list \<Rightarrow> bool" where
  "equals_loop (x # xs) (y # ys) = (if x \<noteq> y then False else equals_loop xs ys)"
| "equals_loop _ _ = True"

definition equals :: "FilePath \<Rightarrow> FilePath \<Rightarrow> bool" where
  "equals p other =
     (if drive p \<noteq> drive other then False
      else if length (pieces p) \<noteq> length (pieces other) then False
      else equals_loop (pieces p) (pieces other))"

definition combine :: "FilePath \<Rightarrow> FilePath \<Rightarrow> FilePath" where
  "combine p other =
     (if isAbsolute other then p
      else FilePath_new (drive p) (pieces p @ pieces other) (isAbsolute p))"

definition parentDirectory :: "FilePath \<Rightarrow> FilePath" where
  "parentDirectory p =
     (if length (pieces p) = 0 then p
      else FilePath_new (drive p) (slice (pieces p) 0 (length (pieces p) - 1)) (isAbsolute p))"

text \<open>
  The constructor is private, so a \<open>FilePath\<close> object exists only as a result of
  \<open>tryParse\<close>, \<open>combine\<close> or \<open>parentDirectory\<close>.
\<close>

inductive FilePath_value :: "FilePath \<Rightarrow> bool" where
  parsed: "tryParse up path defaultDrive = Some p \<Longrightarrow> FilePath_value p"
| combined: "FilePath_value p \<Longrightarrow> FilePath_value other \<Longrightarrow> FilePath_value (combine p other)"
| parent: "FilePath_value p \<Longrightarrow> FilePath_value (parentDirectory p)"

section \<open>File entry model\<close>

datatype FileSystemObjectType = Directory | TextFile | Executable | Audio | Image | Link | Binary

text \<open>The string value of each member of the enum.\<close>

fun type_tag :: "FileSystemObjectType \<Rightarrow> string" where
  "type_tag Directory = ''dir''"
| "type_tag TextFile = ''txt''"
| "type_tag Executable = ''exe''"
| "type_tag Audio = ''aud''"
| "type_tag Image = ''img''"
| "type_tag Link = ''lnk''"
| "type_tag Binary = ''bin''"

text \<open>
  Modelled from the spec: the module \<open>fileTypes\<close> (classes \<open>TextFile\<close>, \<open>BinaryFile\<close>,
  \<open>AudioFile\<close>, \<open>ImageFile\<close>, \<open>LinkFile\<close> and the enum \<open>LinkOpenType\<close>) is not among the
  sources. A text file carries its text content: \<open>replace\<close> sets it and \<open>getText\<close> reads it. A
  binary file carries opaque binary content in its field \<open>data\<close>. Audio and image files are
  asset references, a link is a link target; nothing here reads them.
\<close>

datatype TextFile = MkTextFile (getText: string)

definition TextFile_new :: TextFile where
  "TextFile_new = MkTextFile []"

definition replace :: "TextFile \<Rightarrow> string \<Rightarrow> TextFile" where
  "replace t s = MkTextFile s"

datatype BinaryFile = MkBinaryFile (data: string)

type_synonym AudioFile = string
type_synonym ImageFile = string
type_synonym LinkFile = string
type_synonym LinkOpenType = string

text \<open>
  \<open>FileInfo\<close> is the union of the class \<open>FileInfoDirectory\<close> and the six interfaces. The
  factory closure \<open>createInstance\<close> of an executable is not represented. Objects are mutated in
  place in the source; the operations below return the updated directory instead.
\<close>

datatype FileInfoDirectory = FileInfoDirectory (dir_name: string) (entries: "FileInfo list")
and FileInfo =
    FileInfoDir FileInfoDirectory
  | FileInfoText string TextFile
  | FileInfoExecutable string
  | FileInfoAudio string AudioFile
  | FileInfoImage string ImageFile
  | FileInfoLink string LinkFile LinkOpenType
  | FileInfoBinary string BinaryFile

fun name :: "FileInfo \<Rightarrow> string" where
  "name (FileInfoDir d) = dir_name d"
| "name (FileInfoText n t) = n"
| "name (FileInfoExecutable n) = n"
| "name (FileInfoAudio n a) = n"
| "name (FileInfoImage n i) = n"
| "name (FileInfoLink n l ot) = n"
| "name (FileInfoBinary n b) = n"

fun file_type :: "FileInfo \<Rightarrow> FileSystemObjectType" where
  "file_type (FileInfoDir d) = Directory"
| "file_type (FileInfoText n t) = TextFile"
| "file_type (FileInfoExecutable n) = Executable"
| "file_type (FileInfoAudio n a) = Audio"
| "file_type (FileInfoImage n i) = Image"
| "file_type (FileInfoLink n l ot) = Link"
| "file_type (FileInfoBinary n b) = Binary"

text \<open>
  A thrown \<open>Error\<close> carries its message. \<open>TypeError\<close> is what reading a property of
  \<open>undefined\<close> throws, \<open>SyntaxError\<close> what \<open>JSON.parse\<close> throws.
\<close>

datatype error = Error string | TypeError | SyntaxError

definition addItem :: "FileInfoDirectory \<Rightarrow> FileInfo \<Rightarrow> error + FileInfoDirectory" where
  "addItem d info =
     (case find (\<lambda>e. name e = name info) (entries d) of
        Some e \<Rightarrow> Inl (Error (name info @ '' already exists''))
      | None \<Rightarrow> Inr (FileInfoDirectory (dir_name d) (entries d @ [info])))"

text \<open>\<open>mkdir\<close> answers the updated directory and the directory it created.\<close>

definition mkdir :: "FileInfoDirectory \<Rightarrow> string \<Rightarrow> error + FileInfoDirectory \<times> FileInfoDirectory" where
  "mkdir d n =
     (case find (\<lambda>e. name e = n) (entries d) of
        Some e \<Rightarrow> Inl (Error (n @ '' already exists''))
      | None \<Rightarrow>
          (let dir = FileInfoDirectory n []
           in Inr (FileInfoDirectory (dir_name d) (entries d @ [FileInfoDir dir]), dir)))"

text \<open>\<open>_.remove(entries, pred)\<close> deletes every element that satisfies \<open>pred\<close>.\<close>

definition rmdir :: "FileInfoDirectory \<Rightarrow> string \<Rightarrow> bool \<Rightarrow> error + FileInfoDirectory" where
  "rmdir d n force =
     (case find (\<lambda>e. name e = n) (entries d) of
        None \<Rightarrow> Inl (Error (n @ '' does not exist''))
      | Some dir \<Rightarrow>
          (case dir of
             FileInfoDir sub \<Rightarrow>
               if length (entries sub) \<noteq> 0 \<and> \<not> force then Inl (Error (n @ '' is not empty''))
               else Inr (FileInfoDirectory (dir_name d) (filter (\<lambda>e. \<not> name e = n) (entries d)))
           | _ \<Rightarrow> Inl (Error (n @ '' is not a directory''))))"

section \<open>Drives and the floppy serializer\<close>

datatype FileSystemDriveKind = Transient | Floppy

datatype FileSystemDrive =
    TransientFileSystemDrive FileInfoDirectory
  | FloppyFileSystemDrive FileInfoDirectory

fun rootEntry :: "FileSystemDrive \<Rightarrow> FileInfoDirectory" where
  "rootEntry (TransientFileSystemDrive r) = r"
| "rootEntry (FloppyFileSystemDrive r) = r"

fun drive_type :: "FileSystemDrive \<Rightarrow> FileSystemDriveKind" where
  "drive_type (TransientFileSystemDrive r) = Transient"
| "drive_type (FloppyFileSystemDrive r) = Floppy"

definition TransientFileSystemDrive_new :: FileSystemDrive where
  "TransientFileSystemDrive_new = TransientFileSystemDrive (FileInfoDirectory ''/'' [])"

text \<open>
  The serialized tree as \<open>JSON.parse\<close> delivers it. The cast to \<open>FloppySerialized\<close> checks
  nothing, so an entry can carry a \<open>type\<close> that is neither \<open>dir\<close>, \<open>txt\<close> nor \<open>bin\<close>:
  \<open>SerializedOther\<close> holds such an entry's \<open>type\<close> and \<open>name\<close>.
\<close>

datatype FloppySerializedDirectory =
  SerializedDirectory (ser_name: string) (ser_entries: "FloppySerializedFile list")
and FloppySerializedFile =
    SerializedDir FloppySerializedDirectory
  | SerializedText string string
  | SerializedBinary string string
  | SerializedOther string string

record FloppySerialized =
  root :: FloppySerializedDirectory

text \<open>\<open>Array.prototype.map\<close> calls the function on the elements from left to right, so the
  first element that throws decides the error.\<close>

fun deserializeDirectory :: "FloppySerializedDirectory \<Rightarrow> error + FileInfoDirectory"
and deserializeFile :: "FloppySerializedFile \<Rightarrow> error + FileInfo"
and deserializeFile_map :: "FloppySerializedFile list \<Rightarrow> error + FileInfo list" where
  "deserializeDirectory (SerializedDirectory n es) =
     (case deserializeFile_map es of
        Inl e \<Rightarrow> Inl e
      | Inr fs \<Rightarrow> Inr (FileInfoDirectory n fs))"
| "deserializeFile (SerializedDir d) =
     (case deserializeDirectory d of Inl e \<Rightarrow> Inl e | Inr r \<Rightarrow> Inr (FileInfoDir r))"
| "deserializeFile (SerializedText n textData) =
     Inr (FileInfoText n (replace TextFile_new textData))"
| "deserializeFile (SerializedBinary n binaryData) =
     Inr (FileInfoBinary n (MkBinaryFile binaryData))"
| "deserializeFile (SerializedOther ty n) =
     Inl (Error (''Unrecognized or unsupported serialized file type: '' @ ty))"
| "deserializeFile_map [] = Inr []"
| "deserializeFile_map (x # xs) =
     (case deserializeFile x of
        Inl e \<Rightarrow> Inl e
      | Inr f \<Rightarrow> (case deserializeFile_map xs of Inl e \<Rightarrow> Inl e | Inr fs \<Rightarrow> Inr (f # fs)))"

fun serializeDirectory :: "FileInfoDirectory \<Rightarrow> error + FloppySerializedDirectory"
and serializeFile :: "FileInfo \<Rightarrow> error + FloppySerializedFile"
and serializeFile_map :: "FileInfo list \<Rightarrow> error + FloppySerializedFile list" where
  "serializeDirectory (FileInfoDirectory n es) =
     (case serializeFile_map es of
        Inl e \<Rightarrow> Inl e
      | Inr ss \<Rightarrow> Inr (SerializedDirectory n ss))"
| "serializeFile (FileInfoDir d) =
     (case serializeDirectory d of Inl e \<Rightarrow> Inl e | Inr s \<Rightarrow> Inr (SerializedDir s))"
| "serializeFile (FileInfoText n t) = Inr (SerializedText n (getText t))"
| "serializeFile (FileInfoBinary n b) = Inr (SerializedBinary n (data b))"
| "serializeFile f =
     Inl (Error (''Unrecognized or unsupported file info type: '' @ type_tag (file_type f)))"
| "serializeFile_map [] = Inr []"
| "serializeFile_map (f # fs) =
     (case serializeFile f of
        Inl e \<Rightarrow> Inl e
      | Inr s \<Rightarrow> (case serializeFile_map fs of Inl e \<Rightarrow> Inl e | Inr ss \<Rightarrow> Inr (s # ss)))"

definition fromSerialized :: "FloppySerialized \<Rightarrow> error + FileSystemDrive" where
  "fromSerialized floppyContents =
     (case deserializeDirectory (root floppyContents) of
        Inl e \<Rightarrow> Inl e
      | Inr r \<Rightarrow> Inr (FloppyFileSystemDrive r))"

text \<open>\<open>serialize\<close> is a method of the floppy drive; its argument is the drive's root entry.\<close>

definition serialize :: "FileInfoDirectory \<Rightarrow> error + FloppySerialized" where
  "serialize r =
     (case serializeDirectory r of
        Inl e \<Rightarrow> Inl e
      | Inr s \<Rightarrow> Inr \<lparr>root = s\<rparr>)"

section \<open>Filesystem manager (class FileSystem)\<close>

text \<open>
  \<open>JSON.parse\<close> and \<open>JSON.stringify\<close> belong to the platform. The array kept under the key
  \<open>floppies\<close> holds plain records of strings and \<open>null\<close>, which \<open>JSON.stringify\<close> followed
  by \<open>JSON.parse\<close> gives back unchanged: the store is modelled by the array it holds, \<open>None\<close>
  when the key was never written. The text in the field \<open>data\<close> of a record stays a string;
  the two functions that read and write it are the parameter \<open>js\<close> of the operations:
  \<open>parse js\<close> answers \<open>None\<close> where \<open>JSON.parse\<close> throws.
\<close>

record FloppyStorage =
  floppy_name :: string
  floppy_drive :: "DriveLabel option"
  floppy_data :: string

type_synonym localStorage = "FloppyStorage list option"

record JSON =
  parse :: "string \<Rightarrow> FloppySerialized option"
  stringify :: "FloppySerialized \<Rightarrow> string"

text \<open>\<open>JSON.parse(localStorage.getItem(LSKEY_FLOPPIES) ?? "[]")\<close>.\<close>

definition getFloppyData :: "localStorage \<Rightarrow> FloppyStorage list" where
  "getFloppyData store = (case store of None \<Rightarrow> [] | Some floppyData \<Rightarrow> floppyData)"

text \<open>The object \<open>drives\<close> is used as a dictionary from labels to drives: \<open>label in
  this.drives\<close> is membership in its domain, a label that is not a key reads as
  \<open>undefined\<close>.\<close>

record FileSystem =
  drives :: "DriveLabel \<rightharpoonup> FileSystemDrive"

definition mount :: "FileSystem \<Rightarrow> DriveLabel \<Rightarrow> FileSystemDrive \<Rightarrow> bool \<times> FileSystem" where
  "mount fs label d =
     (if label \<in> dom (drives fs) then (False, fs)
      else (True, fs\<lparr>drives := (drives fs)(label \<mapsto> d)\<rparr>))"

definition unmount :: "FileSystem \<Rightarrow> DriveLabel \<Rightarrow> FileSystem" where
  "unmount fs label = fs\<lparr>drives := (drives fs)(label := None)\<rparr>"

text \<open>
  \<open>#insertFloppyInternal\<close> answers the file system and the record, both updated.
  \<open>fromSerialized\<close> answers a drive or throws, so the test \<open>drive === null\<close> of the source
  never holds and has no branch here.
\<close>

definition insertFloppyInternal ::
  "JSON \<Rightarrow> FileSystem \<Rightarrow> DriveLabel \<Rightarrow> FloppyStorage \<Rightarrow> error + FileSystem \<times> FloppyStorage" where
  "insertFloppyInternal js fs label floppy =
     (case parse js (floppy_data floppy) of
        None \<Rightarrow> Inl SyntaxError
      | Some floppyContents \<Rightarrow>
          (case fromSerialized floppyContents of
             Inl e \<Rightarrow> Inl e
           | Inr d \<Rightarrow>
               (case mount fs label d of
                  (False, fs') \<Rightarrow> Inl (Error ''Failed to insert floppy; it might be corrupt'')
                | (True, fs') \<Rightarrow> Inr (fs', floppy\<lparr>floppy_drive := Some label\<rparr>))))"

text \<open>The loop of the constructor; \<open>catch (e) { throw e; }\<close> passes every error on.\<close>

fun FileSystem_loop ::
  "JSON \<Rightarrow> FileSystem \<Rightarrow> FloppyStorage list \<Rightarrow> error + FileSystem \<times> FloppyStorage list" where
  "FileSystem_loop js fs [] = Inr (fs, [])"
| "FileSystem_loop js fs (floppy # rest) =
     (case floppy_drive floppy of
        None \<Rightarrow>
          (case FileSystem_loop js fs rest of
             Inl e \<Rightarrow> Inl e
           | Inr (fs', rest') \<Rightarrow> Inr (fs', floppy # rest'))
      | Some label \<Rightarrow>
          (case insertFloppyInternal js fs label floppy of
             Inl e \<Rightarrow> Inl e
           | Inr (fs1, floppy1) \<Rightarrow>
               (case FileSystem_loop js fs1 rest of
                  Inl e \<Rightarrow> Inl e
                | Inr (fs', rest') \<Rightarrow> Inr (fs', floppy1 # rest'))))"

text \<open>The constructor answers the new file system and the store as it leaves it; when it
  throws there is no file system, and the store was not written.\<close>

definition FileSystem_new :: "JSON \<Rightarrow> localStorage \<Rightarrow> error + FileSystem \<times> localStorage" where
  "FileSystem_new js store =
     (let fs0 = snd (mount \<lparr>drives = Map.empty\<rparr> ''C'' TransientFileSystemDrive_new);
          floppyData = getFloppyData store
      in case FileSystem_loop js fs0 floppyData of
           Inl e \<Rightarrow> Inl e
         | Inr (fs, floppyData') \<Rightarrow> Inr (fs, Some floppyData'))"

text \<open>The loop of \<open>commit\<close>: \<open>this.drives[floppy.drive]\<close> is \<open>undefined\<close> for a label that is
  not mounted, and reading \<open>drive.type\<close> then throws a \<open>TypeError\<close>.\<close>

fun commit_loop ::
  "JSON \<Rightarrow> FileSystem \<Rightarrow> FloppyStorage list \<Rightarrow> error + FloppyStorage list" where
  "commit_loop js fs [] = Inr []"
| "commit_loop js fs (floppy # rest) =
     (case floppy_drive floppy of
        None \<Rightarrow>
          (case commit_loop js fs rest of Inl e \<Rightarrow> Inl e | Inr rest' \<Rightarrow> Inr (floppy # rest'))
      | Some label \<Rightarrow>
          (case drives fs label of
             None \<Rightarrow> Inl TypeError
           | Some d \<Rightarrow>
               (if drive_type d \<noteq> Floppy then
                  (case commit_loop js fs rest of
                     Inl e \<Rightarrow> Inl e
                   | Inr rest' \<Rightarrow> Inr (floppy\<lparr>floppy_drive := None\<rparr> # rest'))
                else
                  (case serialize (rootEntry d) of
                     Inl e \<Rightarrow> Inl e
                   | Inr ser \<Rightarrow>
                       (case commit_loop js fs rest of
                          Inl e \<Rightarrow> Inl e
                        | Inr rest' \<Rightarrow>
                            Inr (floppy\<lparr>floppy_data := stringify js ser\<rparr> # rest'))))))"

definition commit :: "JSON \<Rightarrow> FileSystem \<Rightarrow> localStorage \<Rightarrow> error + localStorage" where
  "commit js fs store =
     (case commit_loop js fs (getFloppyData store) of
        Inl e \<Rightarrow> Inl e
      | Inr floppyData \<Rightarrow> Inr (Some floppyData))"

text \<open>\<open>name.match(/^[a-zA-Z0-9_]+$/)\<close>: without the flag \<open>m\<close> the anchors are the two ends
  of the string.\<close>

definition floppy_name_char :: "char \<Rightarrow> bool" where
  "floppy_name_char c =
     (let n = (of_char c :: nat)
      in (97 \<le> n \<and> n \<le> 122) \<or> (65 \<le> n \<and> n \<le> 90) \<or> (48 \<le> n \<and> n \<le> 57) \<or> c = CHR ''_'')"

definition floppy_name_match :: "string \<Rightarrow> bool" where
  "floppy_name_match n = (n \<noteq> [] \<and> list_all floppy_name_char n)"

definition spawnFloppy :: "JSON \<Rightarrow> string \<Rightarrow> localStorage \<Rightarrow> error + localStorage" where
  "spawnFloppy js n store =
     (if \<not> floppy_name_match n then Inl (Error (''Invalid floppy name'' @ [CHR 0x0A]))
      else
        (let floppyData = getFloppyData store
         in case find (\<lambda>d. floppy_name d = n) floppyData of
              Some existing \<Rightarrow>
                Inl (Error (''Floppy '' @ [CHR 0x27] @ n @ [CHR 0x27] @ '' already exists'' @ [CHR 0x0A]))
            | None \<Rightarrow>
                (let floppyContents = \<lparr>root = SerializedDirectory ''/'' []\<rparr>
                 in Inr (Some (floppyData @
                      [\<lparr>floppy_name = n, floppy_drive = None,
                        floppy_data = stringify js floppyContents\<rparr>])))))"

text \<open>\<open>_.remove\<close> takes every record of that name out of the array and answers them.\<close>

definition burnFloppy ::
  "string \<Rightarrow> FileSystem \<Rightarrow> localStorage \<Rightarrow> error + FileSystem \<times> localStorage" where
  "burnFloppy n fs store =
     (let floppyData = getFloppyData store;
          floppies = filter (\<lambda>d. floppy_name d = n) floppyData;
          floppyData' = filter (\<lambda>d. \<not> floppy_name d = n) floppyData
      in case floppies of
           [] \<Rightarrow> Inl (Error ''No floppy with that name'')
         | floppy # others \<Rightarrow>
             Inr (case floppy_drive floppy of None \<Rightarrow> fs | Some label \<Rightarrow> unmount fs label,
                  Some floppyData'))"

text \<open>The loop of \<open>getFileInfo\<close> over the segments before the last one.\<close>

function getFileInfo_loop ::
  "string list \<Rightarrow> nat \<Rightarrow> FileInfoDirectory \<Rightarrow> FileInfoDirectory option" where
  "getFileInfo_loop ps i cur =
     (if i < length ps - 1 then
        (case find (\<lambda>e. file_type e = Directory \<and> name e = ps ! i) (entries cur) of
           Some (FileInfoDir found) \<Rightarrow> getFileInfo_loop ps (i + 1) found
         | _ \<Rightarrow> None)
      else Some cur)"
  by pat_completeness auto
termination
  by (relation "measure (\<lambda>(ps, i, cur). length ps - 1 - i)") auto

declare getFileInfo_loop.simps [simp del]

definition getFileInfo :: "FileSystem \<Rightarrow> FilePath option \<Rightarrow> FileInfo option" where
  "getFileInfo fs path =
     (case path of
        None \<Rightarrow> None
      | Some p \<Rightarrow>
          (case drive p of
             None \<Rightarrow> None
           | Some label \<Rightarrow>
               (case drives fs label of
                  None \<Rightarrow> None
                | Some fsDrive \<Rightarrow>
                    (if length (pieces p) = 0 then Some (FileInfoDir (rootEntry fsDrive))
                     else
                       (case getFileInfo_loop (pieces p) 0 (rootEntry fsDrive) of
                          None \<Rightarrow> None
                        | Some cur \<Rightarrow>
                            find (\<lambda>e. name e = pieces p ! (length (pieces p) - 1))
                              (entries cur))))))"

section \<open>Notions of the specification\<close>

text \<open>A tree built only from directories, text files and binary files.\<close>

fun serializable_dir :: "FileInfoDirectory \<Rightarrow> bool"
and serializable :: "FileInfo \<Rightarrow> bool"
and serializable_list :: "FileInfo list \<Rightarrow> bool" where
  "serializable_dir (FileInfoDirectory n es) = serializable_list es"
| "serializable (FileInfoDir d) = serializable_dir d"
| "serializable (FileInfoText n t) = True"
| "serializable (FileInfoBinary n b) = True"
| "serializable f = False"
| "serializable_list [] = True"
| "serializable_list (f # fs) = (serializable f \<and> serializable_list fs)"

text \<open>
  The directories named \<open>p\<close> among the entries of \<open>cur\<close>, in their order. Names are unique
  in a directory that \<open>addItem\<close> and \<open>mkdir\<close> built, and the list then has at most one element.
\<close>

definition subdirectories :: "FileInfoDirectory \<Rightarrow> string \<Rightarrow> FileInfoDirectory list" where
  "subdirectories cur p = [sub. FileInfoDir sub \<leftarrow> entries cur, dir_name sub = p]"

text \<open>
  A piece sequence is not found under \<open>cur\<close> when a segment before the last names no
  directory among the entries of the directory reached so far, or when the last segment names
  no entry of the directory reached. The empty sequence is always found.
\<close>

fun spec_not_found :: "FileInfoDirectory \<Rightarrow> string list \<Rightarrow> bool" where
  "spec_not_found cur [] = False"
| "spec_not_found cur [p] = (p \<notin> name ` set (entries cur))"
| "spec_not_found cur (p # q # ps) =
     (case subdirectories cur p of
        [] \<Rightarrow> True
      | sub # others \<Rightarrow> spec_not_found sub (q # ps))"

text \<open>
  What \<open>commit\<close> does to one record whose label, if it has one, is mounted: the data of a
  record whose label holds a floppy becomes the text of that floppy's serialized tree; the
  drive of a record whose label holds a drive that is no floppy is cleared; a record without
  a label is left alone.
\<close>

definition spec_commit_record :: "JSON \<Rightarrow> FileSystem \<Rightarrow> FloppyStorage \<Rightarrow> FloppyStorage" where
  "spec_commit_record js fs r =
     (case floppy_drive r of
        None \<Rightarrow> r
      | Some label \<Rightarrow>
          (case drives fs label of
             Some (FloppyFileSystemDrive tree) \<Rightarrow>
               (case serialize tree of
                  Inr ser \<Rightarrow> r\<lparr>floppy_data := stringify js ser\<rparr>
                | Inl e \<Rightarrow> r)
           | Some (TransientFileSystemDrive tree) \<Rightarrow> r\<lparr>floppy_drive := None\<rparr>
           | None \<Rightarrow> r))"

text \<open>Deserializing the \<open>data\<close> of a record: parsing the text, then building the drive.\<close>

definition deserialize_record :: "JSON \<Rightarrow> FloppyStorage \<Rightarrow> error + FileSystemDrive" where
  "deserialize_record js r =
     (case parse js (floppy_data r) of
        None \<Rightarrow> Inl SyntaxError
      | Some floppyContents \<Rightarrow> fromSerialized floppyContents)"

section \<open>Properties of the path model\<close>

lemma FilePath_loop_foldl:
  "FilePath_loop a ps acc = foldl (spec_normalize_step a) acc ps"
proof (induction ps arbitrary: acc)
  case Nil
  show ?case by simp
next
  case (Cons p ps)
  show ?case
    unfolding FilePath_loop.simps foldl_Cons Cons.IH
    by (simp add: spec_normalize_step_def)
qed

lemma step_keeps_dot_out:
  "''.'' \<notin> set acc \<Longrightarrow> ''.'' \<notin> set (spec_normalize_step a acc x)"
  by (auto simp: spec_normalize_step_def dest: in_set_butlastD)

lemma foldl_keeps_dot_out:
  "''.'' \<notin> set acc \<Longrightarrow> ''.'' \<notin> set (foldl (spec_normalize_step a) acc ps)"
  by (induction ps arbitrary: acc) (simp_all add: step_keeps_dot_out)

lemma step_keeps_dotdot_out:
  "''..'' \<notin> set acc \<Longrightarrow> ''..'' \<notin> set (spec_normalize_step True acc x)"
  by (auto simp: spec_normalize_step_def dest: in_set_butlastD)

lemma foldl_keeps_dotdot_out:
  "''..'' \<notin> set acc \<Longrightarrow> ''..'' \<notin> set (foldl (spec_normalize_step True) acc ps)"
  by (induction ps arbitrary: acc) (simp_all add: step_keeps_dotdot_out)

lemma step_length: "length (spec_normalize_step a acc x) \<le> Suc (length acc)"
  by (auto simp: spec_normalize_step_def)

lemma foldl_step_length:
  "length (foldl (spec_normalize_step a) acc ps) \<le> length acc + length ps"
proof (induction ps arbitrary: acc)
  case Nil
  show ?case by simp
next
  case (Cons p ps)
  have "length (foldl (spec_normalize_step a) (spec_normalize_step a acc p) ps)
          \<le> length (spec_normalize_step a acc p) + length ps"
    by (rule Cons.IH)
  also have "\<dots> \<le> Suc (length acc) + length ps"
    using step_length[of a acc p] by simp
  finally show ?case by simp
qed

lemma foldl_step_relative:
  "foldl (spec_normalize_step False) acc ps = acc @ filter (\<lambda>x. x \<noteq> ''.'') ps"
  by (induction ps arbitrary: acc) (simp_all add: spec_normalize_step_def)

lemma pieces_FilePath_new:
  "pieces (FilePath_new d ps a) = foldl (spec_normalize_step (d \<noteq> None \<or> a)) [] ps"
  by (simp add: FilePath_new_def Let_def FilePath_loop_foldl)

lemma isAbsolute_FilePath_new: "isAbsolute (FilePath_new d ps a) = (d \<noteq> None \<or> a)"
  by (simp add: FilePath_new_def Let_def)

lemma drive_FilePath_new: "drive (FilePath_new d ps a) = d"
  by (simp add: FilePath_new_def Let_def)

text \<open>
  Claim C6. The constructor normalizes the piece sequence from left to right. Nothing is
  accumulated for the empty sequence. A sequence that ends in one more segment \<open>x\<close> yields
  what the sequence before it yields, then: unchanged when \<open>x\<close> is \<open>.\<close>; for \<open>..\<close> on an
  absolute path without its last segment, and unchanged when there is none; for \<open>..\<close> on a
  relative path with \<open>..\<close> appended; with \<open>x\<close> appended otherwise. So no \<open>.\<close> is ever in the
  result, the result is never longer than the input, an absolute path holds no \<open>..\<close>, and a
  relative path holds the input without its \<open>.\<close> segments.
\<close>

theorem FilePath_new_normalizes:
  "pieces (FilePath_new d [] a) = []
   \<and> pieces (FilePath_new d (ps @ [x]) a) =
      (let acc = pieces (FilePath_new d ps a)
       in if x = ''.'' then acc
          else if x = ''..'' then
            (if isAbsolute (FilePath_new d ps a) then (if acc = [] then [] else butlast acc)
             else acc @ [''..''])
          else acc @ [x])
   \<and> ''.'' \<notin> set (pieces (FilePath_new d ps a))
   \<and> length (pieces (FilePath_new d ps a)) \<le> length ps
   \<and> (if isAbsolute (FilePath_new d ps a) then ''..'' \<notin> set (pieces (FilePath_new d ps a))
      else pieces (FilePath_new d ps a) = filter (\<lambda>x. x \<noteq> ''.'') ps)"
proof -
  let ?b = "d \<noteq> None \<or> a"
  have 1: "pieces (FilePath_new d [] a) = []"
    by (simp add: pieces_FilePath_new)
  have 2: "pieces (FilePath_new d (ps @ [x]) a) =
      (let acc = pieces (FilePath_new d ps a)
       in if x = ''.'' then acc
          else if x = ''..'' then
            (if isAbsolute (FilePath_new d ps a) then (if acc = [] then [] else butlast acc)
             else acc @ [''..''])
          else acc @ [x])"
    unfolding pieces_FilePath_new isAbsolute_FilePath_new foldl_append
    by (simp add: spec_normalize_step_def Let_def)
  have 3: "''.'' \<notin> set (pieces (FilePath_new d ps a))"
    unfolding pieces_FilePath_new by (rule foldl_keeps_dot_out) simp
  have 4: "length (pieces (FilePath_new d ps a)) \<le> length ps"
    unfolding pieces_FilePath_new using foldl_step_length[of ?b "[]" ps] by simp
  have 5: "if isAbsolute (FilePath_new d ps a) then ''..'' \<notin> set (pieces (FilePath_new d ps a))
      else pieces (FilePath_new d ps a) = filter (\<lambda>x. x \<noteq> ''.'') ps"
  proof (cases ?b)
    case True
    have "''..'' \<notin> set (foldl (spec_normalize_step True) [] ps)"
      by (rule foldl_keeps_dotdot_out) simp
    with True show ?thesis
      unfolding pieces_FilePath_new isAbsolute_FilePath_new by simp
  next
    case False
    then show ?thesis
      unfolding pieces_FilePath_new isAbsolute_FilePath_new by (simp add: foldl_step_relative)
  qed
  from 1 2 3 4 5 show ?thesis by blast
qed

theorem FilePath_new_normalizes_witness:
  "pieces (FilePath_new (Some ''C'') ([''a'', ''.'', ''..'', ''..''] @ [''..'']) False) = []
   \<and> pieces (FilePath_new None ([''a'', ''.''] @ [''..'']) False) = [''a'', ''..'']"
  using FilePath_new_normalizes[where d="Some ''C''" and ps="[''a'', ''.'', ''..'', ''..'']"
          and x="''..''" and a=False]
        FilePath_new_normalizes[where d=None and ps="[''a'', ''.'']" and x="''..''" and a=False]
  by (simp add: FilePath_new_def)

lemma tryParse_rest_props:
  "drive (tryParse_rest d0 path dd) =
     (if (length path = 0 \<or> path ! 0 = CHR ''/'') \<and> d0 = None then dd else d0)"
  "isAbsolute (tryParse_rest d0 path dd) =
     (drive (tryParse_rest d0 path dd) \<noteq> None \<or> length path = 0 \<or> path ! 0 = CHR ''/'')"
  by (simp_all add: tryParse_rest_def Let_def drive_FilePath_new isAbsolute_FilePath_new)

lemma FilePath_new_drive_absolute:
  "drive (FilePath_new d ps a) \<noteq> None \<Longrightarrow> isAbsolute (FilePath_new d ps a)"
  by (simp add: FilePath_new_def Let_def)

lemma tryParse_rest_drive_absolute:
  "drive (tryParse_rest d0 path dd) \<noteq> None \<Longrightarrow> isAbsolute (tryParse_rest d0 path dd)"
  unfolding tryParse_rest_def Let_def by (rule FilePath_new_drive_absolute)

lemma tryParse_drive_absolute:
  assumes "tryParse up path dd = Some p" and "drive p \<noteq> None"
  shows "isAbsolute p"
  using assms tryParse_rest_drive_absolute
  by (auto simp: tryParse_def Let_def FilePath_new_def split: if_splits)

lemma combine_absolute_other: "isAbsolute other \<Longrightarrow> combine p other = p"
  by (simp add: combine_def)

text \<open>
  Claim C1, evaluated on the code. \<open>combine\<close> answers the receiver when \<open>other\<close> is
  absolute: the relative path \<open>a\<close> combined with the absolute path \<open>/b\<close> is the relative path
  \<open>a\<close>, which \<open>equals\<close> tells apart from \<open>/b\<close>.
\<close>

theorem combine_absolute_answers_receiver:
  "tryParse toUpperCase ''a'' None = Some \<lparr>drive = None, pieces = [''a''], isAbsolute = False\<rparr>
   \<and> tryParse toUpperCase ''/b'' None = Some \<lparr>drive = None, pieces = [''b''], isAbsolute = True\<rparr>
   \<and> combine \<lparr>drive = None, pieces = [''a''], isAbsolute = False\<rparr>
        \<lparr>drive = None, pieces = [''b''], isAbsolute = True\<rparr>
      = \<lparr>drive = None, pieces = [''a''], isAbsolute = False\<rparr>
   \<and> \<not> equals (combine \<lparr>drive = None, pieces = [''a''], isAbsolute = False\<rparr>
                 \<lparr>drive = None, pieces = [''b''], isAbsolute = True\<rparr>)
          \<lparr>drive = None, pieces = [''b''], isAbsolute = True\<rparr>"
  by code_simp

text \<open>
  Claim C4 fails at the literal \<open>/\<close>: it is accepted, has no drive prefix and yields an
  absolute path, and the drive of that path is \<open>null\<close> although the default drive is \<open>C\<close>.
\<close>

theorem tryParse_slash_counterexample:
  "tryParse toUpperCase ''/'' (Some ''C'') = Some \<lparr>drive = None, pieces = [], isAbsolute = True\<rparr>
   \<and> indexOf ''/'' CHR '':'' < 0
   \<and> isAbsolute \<lparr>drive = None, pieces = [], isAbsolute = True\<rparr>
   \<and> drive \<lparr>drive = None, pieces = [], isAbsolute = True\<rparr> \<noteq> Some ''C''"
  by code_simp

text \<open>
  Claim C4, amended. For every input string other than the literal \<open>/\<close> that \<open>tryParse\<close>
  accepts, that has no drive prefix (no colon) and that yields an absolute path, the drive of
  the result is the supplied default drive. The literal \<open>/\<close> yields the absolute root with
  no drive, whatever the default drive is.
\<close>

theorem tryParse_defaultDrive:
  "(tryParse up path defaultDrive = Some p \<and> indexOf path CHR '':'' < 0 \<and> isAbsolute p
      \<and> path \<noteq> ''/'' \<longrightarrow> drive p = defaultDrive)
   \<and> tryParse up ''/'' defaultDrive = Some \<lparr>drive = None, pieces = [], isAbsolute = True\<rparr>"
  by (auto simp: tryParse_def Let_def tryParse_rest_props FilePath_new_def split: if_splits)

theorem tryParse_defaultDrive_witness:
  "tryParse toUpperCase ''/x'' (Some ''C'')
      = Some \<lparr>drive = Some ''C'', pieces = [''x''], isAbsolute = True\<rparr>
   \<and> indexOf ''/x'' CHR '':'' < 0
   \<and> isAbsolute \<lparr>drive = Some ''C'', pieces = [''x''], isAbsolute = True\<rparr>
   \<and> ''/x'' \<noteq> ''/''
   \<and> drive \<lparr>drive = Some ''C'', pieces = [''x''], isAbsolute = True\<rparr> = Some ''C''"
proof -
  have e: "tryParse toUpperCase ''/x'' (Some ''C'')
      = Some \<lparr>drive = Some ''C'', pieces = [''x''], isAbsolute = True\<rparr>"
    by code_simp
  have i: "indexOf ''/x'' CHR '':'' < 0"
    by code_simp
  from tryParse_defaultDrive[of toUpperCase "''/x''" "Some ''C''"
         "\<lparr>drive = Some ''C'', pieces = [''x''], isAbsolute = True\<rparr>"] e i
  show ?thesis by simp
qed

text \<open>
  Claim C10. Every \<open>FilePath\<close> value, that is every result of \<open>tryParse\<close>, \<open>combine\<close> or
  \<open>parentDirectory\<close>, that has a drive is absolute.
\<close>

theorem FilePath_drive_absolute:
  assumes "FilePath_value p" and "drive p \<noteq> None"
  shows "isAbsolute p"
  using assms
proof (induction rule: FilePath_value.induct)
  case (parsed up path defaultDrive p)
  then show ?case by (rule tryParse_drive_absolute)
next
  case (combined p other)
  then show ?case
    by (auto simp: combine_def FilePath_new_def Let_def split: if_splits)
next
  case (parent p)
  then show ?case
    by (auto simp: parentDirectory_def FilePath_new_def Let_def split: if_splits)
qed

theorem FilePath_drive_absolute_witness:
  "FilePath_value (parentDirectory \<lparr>drive = Some ''C'', pieces = [''a'', ''b''], isAbsolute = True\<rparr>)
   \<and> drive (parentDirectory \<lparr>drive = Some ''C'', pieces = [''a'', ''b''], isAbsolute = True\<rparr>) \<noteq> None
   \<and> isAbsolute (parentDirectory \<lparr>drive = Some ''C'', pieces = [''a'', ''b''], isAbsolute = True\<rparr>)"
proof -
  have e: "tryParse toUpperCase ''c:/a/b'' None
      = Some \<lparr>drive = Some ''C'', pieces = [''a'', ''b''], isAbsolute = True\<rparr>"
    by code_simp
  have v: "FilePath_value (parentDirectory \<lparr>drive = Some ''C'', pieces = [''a'', ''b''], isAbsolute = True\<rparr>)"
    by (rule parent, rule parsed, rule e)
  have d: "drive (parentDirectory \<lparr>drive = Some ''C'', pieces = [''a'', ''b''], isAbsolute = True\<rparr>) \<noteq> None"
    by code_simp
  from v d FilePath_drive_absolute[OF v d] show ?thesis by simp
qed

section \<open>Properties of the file entry model and of the serializer\<close>

lemma find_name_None: "(find (\<lambda>e. f e = n) xs = None) = (n \<notin> f ` set xs)"
  by (auto simp: find_None_iff)

text \<open>
  Claim C8. \<open>rmdir d n force\<close> fails when no entry of \<open>d\<close> is named \<open>n\<close>, fails when the
  entry named \<open>n\<close> (the first one in the order of the entries) is not a directory, and fails
  when that directory is not empty and \<open>force\<close> is false. Otherwise, so also for a directory
  that is not empty when \<open>force\<close> is true, it succeeds and leaves \<open>d\<close> with the entries
  whose name is not \<open>n\<close>, in their order: \<open>n\<close> names no entry any more.
\<close>

theorem rmdir_cases:
  "(n \<notin> name ` set (entries d) \<longrightarrow> rmdir d n force = Inl (Error (n @ '' does not exist'')))
   \<and> (find (\<lambda>e. name e = n) (entries d) = Some e \<and> file_type e \<noteq> Directory
        \<longrightarrow> rmdir d n force = Inl (Error (n @ '' is not a directory'')))
   \<and> (find (\<lambda>e. name e = n) (entries d) = Some (FileInfoDir sub) \<and> entries sub \<noteq> [] \<and> \<not> force
        \<longrightarrow> rmdir d n force = Inl (Error (n @ '' is not empty'')))
   \<and> (find (\<lambda>e. name e = n) (entries d) = Some (FileInfoDir sub) \<and> (entries sub = [] \<or> force)
        \<longrightarrow> rmdir d n force
              = Inr (FileInfoDirectory (dir_name d) (filter (\<lambda>e. name e \<noteq> n) (entries d)))
            \<and> n \<notin> name ` set (filter (\<lambda>e. name e \<noteq> n) (entries d)))"
proof -
  have 1: "n \<notin> name ` set (entries d) \<longrightarrow> rmdir d n force = Inl (Error (n @ '' does not exist''))"
    by (simp add: rmdir_def find_name_None[symmetric])
  have 2: "find (\<lambda>e. name e = n) (entries d) = Some e \<and> file_type e \<noteq> Directory
        \<longrightarrow> rmdir d n force = Inl (Error (n @ '' is not a directory''))"
    by (cases e) (simp_all add: rmdir_def)
  have 3: "find (\<lambda>e. name e = n) (entries d) = Some (FileInfoDir sub) \<and> entries sub \<noteq> [] \<and> \<not> force
        \<longrightarrow> rmdir d n force = Inl (Error (n @ '' is not empty''))"
    by (simp add: rmdir_def)
  have 4: "find (\<lambda>e. name e = n) (entries d) = Some (FileInfoDir sub) \<and> (entries sub = [] \<or> force)
        \<longrightarrow> rmdir d n force
              = Inr (FileInfoDirectory (dir_name d) (filter (\<lambda>e. name e \<noteq> n) (entries d)))
            \<and> n \<notin> name ` set (filter (\<lambda>e. name e \<noteq> n) (entries d))"
    by (auto simp: rmdir_def)
  from 1 2 3 4 show ?thesis by blast
qed

theorem rmdir_cases_witness:
  "rmdir (FileInfoDirectory ''/''
            [FileInfoDir (FileInfoDirectory ''x'' [FileInfoText ''f'' (MkTextFile [])]),
             FileInfoText ''t'' (MkTextFile [])]) ''zz'' False
     = Inl (Error ''zz does not exist'')
   \<and> rmdir (FileInfoDirectory ''/''
            [FileInfoDir (FileInfoDirectory ''x'' [FileInfoText ''f'' (MkTextFile [])]),
             FileInfoText ''t'' (MkTextFile [])]) ''t'' True
     = Inl (Error ''t is not a directory'')
   \<and> rmdir (FileInfoDirectory ''/''
            [FileInfoDir (FileInfoDirectory ''x'' [FileInfoText ''f'' (MkTextFile [])]),
             FileInfoText ''t'' (MkTextFile [])]) ''x'' False
     = Inl (Error ''x is not empty'')
   \<and> rmdir (FileInfoDirectory ''/''
            [FileInfoDir (FileInfoDirectory ''x'' [FileInfoText ''f'' (MkTextFile [])]),
             FileInfoText ''t'' (MkTextFile [])]) ''x'' True
     = Inr (FileInfoDirectory ''/'' [FileInfoText ''t'' (MkTextFile [])])"
proof -
  let ?x = "FileInfoDirectory ''x'' [FileInfoText ''f'' (MkTextFile [])]"
  let ?t = "FileInfoText ''t'' (MkTextFile [])"
  let ?d = "FileInfoDirectory ''/'' [FileInfoDir ?x, ?t]"
  have 1: "rmdir ?d ''zz'' False = Inl (Error ''zz does not exist'')"
    using rmdir_cases[where d="?d" and n="''zz''" and force=False] by simp
  have 2: "rmdir ?d ''t'' True = Inl (Error ''t is not a directory'')"
    using rmdir_cases[where d="?d" and n="''t''" and force=True and e="?t"] by simp
  have 3: "rmdir ?d ''x'' False = Inl (Error ''x is not empty'')"
    using rmdir_cases[where d="?d" and n="''x''" and force=False and sub="?x"] by simp
  have 4: "rmdir ?d ''x'' True = Inr (FileInfoDirectory ''/'' [?t])"
    using rmdir_cases[where d="?d" and n="''x''" and force=True and sub="?x"] by simp
  from 1 2 3 4 show ?thesis by blast
qed

lemma serialize_deserialize:
  "(serializable_dir d \<longrightarrow> (\<exists>s. serializeDirectory d = Inr s \<and> deserializeDirectory s = Inr d))"
  "(serializable f \<longrightarrow> (\<exists>s. serializeFile f = Inr s \<and> deserializeFile s = Inr f))"
  "(serializable_list fs \<longrightarrow> (\<exists>ss. serializeFile_map fs = Inr ss \<and> deserializeFile_map ss = Inr fs))"
  by (induction d and f and fs rule: serializable_dir_serializable_serializable_list.induct)
     (auto simp: replace_def)

text \<open>
  Claim C5. A directory tree built only from directories, text files and binary files
  serializes without error, and deserializing the serialized form yields the same tree:
  the same names, kinds, nesting and order of children, and the same text and binary content.
\<close>

theorem fromSerialized_serialize:
  assumes "serializable_dir r"
  shows "\<exists>ser. serialize r = Inr ser \<and> fromSerialized ser = Inr (FloppyFileSystemDrive r)"
proof -
  from assms serialize_deserialize(1)[of r]
  obtain s where s: "serializeDirectory r = Inr s" "deserializeDirectory s = Inr r"
    by blast
  then show ?thesis
    by (simp add: serialize_def fromSerialized_def)
qed

theorem fromSerialized_serialize_witness:
  "serializable_dir
     (FileInfoDirectory ''/''
        [FileInfoText ''a.txt'' (MkTextFile ''hi''),
         FileInfoDir (FileInfoDirectory ''d'' [FileInfoBinary ''b'' (MkBinaryFile ''01'')])])
   \<and> (\<exists>ser. serialize
          (FileInfoDirectory ''/''
            [FileInfoText ''a.txt'' (MkTextFile ''hi''),
             FileInfoDir (FileInfoDirectory ''d'' [FileInfoBinary ''b'' (MkBinaryFile ''01'')])])
          = Inr ser
        \<and> fromSerialized ser = Inr (FloppyFileSystemDrive
          (FileInfoDirectory ''/''
            [FileInfoText ''a.txt'' (MkTextFile ''hi''),
             FileInfoDir (FileInfoDirectory ''d'' [FileInfoBinary ''b'' (MkBinaryFile ''01'')])])))"
proof -
  let ?r = "FileInfoDirectory ''/''
        [FileInfoText ''a.txt'' (MkTextFile ''hi''),
         FileInfoDir (FileInfoDirectory ''d'' [FileInfoBinary ''b'' (MkBinaryFile ''01'')])]"
  have h: "serializable_dir ?r" by simp
  from h fromSerialized_serialize[OF h] show ?thesis by blast
qed

section \<open>Properties of the filesystem manager\<close>

lemma filter_name_none: "n \<notin> f ` set xs \<Longrightarrow> filter (\<lambda>d. f d = n) xs = []"
  by (induction xs) auto

lemma filter_name_all: "n \<notin> f ` set xs \<Longrightarrow> filter (\<lambda>d. \<not> f d = n) xs = xs"
  by (induction xs) auto

text \<open>
  Claim C9. Let \<open>n\<close> match \<open>[A-Za-z0-9_]+\<close> and let no record of the persisted array be named
  \<open>n\<close>. Then \<open>spawnFloppy n\<close> succeeds and appends exactly one record, with name \<open>n\<close>, drive
  \<open>null\<close> and as data the text of an empty root directory named \<open>/\<close>, which deserializes to
  the empty root directory. \<open>burnFloppy n\<close> right after it succeeds and leaves the persisted
  array as it was before the two calls (the same length, no record named \<open>n\<close>) and the mount
  table unchanged.
\<close>

theorem spawnFloppy_burnFloppy:
  assumes "floppy_name_match n" and "n \<notin> floppy_name ` set (getFloppyData store)"
  shows "spawnFloppy js n store
           = Inr (Some (getFloppyData store @
               [\<lparr>floppy_name = n, floppy_drive = None,
                 floppy_data = stringify js \<lparr>root = SerializedDirectory ''/'' []\<rparr>\<rparr>]))
         \<and> burnFloppy n fs (Some (getFloppyData store @
               [\<lparr>floppy_name = n, floppy_drive = None,
                 floppy_data = stringify js \<lparr>root = SerializedDirectory ''/'' []\<rparr>\<rparr>]))
           = Inr (fs, Some (getFloppyData store))
         \<and> fromSerialized \<lparr>root = SerializedDirectory ''/'' []\<rparr>
           = Inr (FloppyFileSystemDrive (FileInfoDirectory ''/'' []))"
proof -
  from assms(2) have f: "find (\<lambda>d. floppy_name d = n) (getFloppyData store) = None"
    by (simp add: find_name_None)
  have 1: "spawnFloppy js n store
           = Inr (Some (getFloppyData store @
               [\<lparr>floppy_name = n, floppy_drive = None,
                 floppy_data = stringify js \<lparr>root = SerializedDirectory ''/'' []\<rparr>\<rparr>]))"
    using assms(1) f by (simp add: spawnFloppy_def Let_def)
  have 2: "burnFloppy n fs (Some (getFloppyData store @
               [\<lparr>floppy_name = n, floppy_drive = None,
                 floppy_data = stringify js \<lparr>root = SerializedDirectory ''/'' []\<rparr>\<rparr>]))
           = Inr (fs, Some (getFloppyData store))"
    using filter_name_none[OF assms(2)] filter_name_all[OF assms(2)]
    by (simp add: burnFloppy_def Let_def getFloppyData_def)
  have 3: "fromSerialized \<lparr>root = SerializedDirectory ''/'' []\<rparr>
           = Inr (FloppyFileSystemDrive (FileInfoDirectory ''/'' []))"
    by (simp add: fromSerialized_def)
  from 1 2 3 show ?thesis by blast
qed


theorem spawnFloppy_burnFloppy_witness:
  "floppy_name_match ''A1_b''
   \<and> ''A1_b'' \<notin> floppy_name ` set (getFloppyData
        (Some [\<lparr>floppy_name = ''work'', floppy_drive = Some ''D'', floppy_data = ''w''\<rparr>]))
   \<and> spawnFloppy \<lparr>parse = (\<lambda>s. None), stringify = (\<lambda>c. ''r'')\<rparr> ''A1_b''
        (Some [\<lparr>floppy_name = ''work'', floppy_drive = Some ''D'', floppy_data = ''w''\<rparr>])
      = Inr (Some [\<lparr>floppy_name = ''work'', floppy_drive = Some ''D'', floppy_data = ''w''\<rparr>,
                   \<lparr>floppy_name = ''A1_b'', floppy_drive = None, floppy_data = ''r''\<rparr>])
   \<and> burnFloppy ''A1_b'' \<lparr>drives = Map.empty\<rparr>
        (Some [\<lparr>floppy_name = ''work'', floppy_drive = Some ''D'', floppy_data = ''w''\<rparr>,
               \<lparr>floppy_name = ''A1_b'', floppy_drive = None, floppy_data = ''r''\<rparr>])
      = Inr (\<lparr>drives = Map.empty\<rparr>,
             Some [\<lparr>floppy_name = ''work'', floppy_drive = Some ''D'', floppy_data = ''w''\<rparr>])"
proof -
  let ?store = "Some [\<lparr>floppy_name = ''work'', floppy_drive = Some ''D'', floppy_data = ''w''\<rparr>]"
  have m: "floppy_name_match ''A1_b''" by code_simp
  have a: "''A1_b'' \<notin> floppy_name ` set (getFloppyData ?store)"
    by (simp add: getFloppyData_def)
  from m a spawnFloppy_burnFloppy[OF m a, of "\<lparr>parse = (\<lambda>s. None), stringify = (\<lambda>c. ''r'')\<rparr>" "\<lparr>drives = Map.empty\<rparr>"]
  show ?thesis by (simp add: getFloppyData_def)
qed


lemma find_directory:
  "find (\<lambda>e. file_type e = Directory \<and> name e = p) es =
     (case [sub. FileInfoDir sub \<leftarrow> es, dir_name sub = p] of
        [] \<Rightarrow> None
      | sub # others \<Rightarrow> Some (FileInfoDir sub))"
proof (induction es)
  case Nil
  show ?case by simp
next
  case (Cons e es)
  then show ?case by (cases e) simp_all
qed

lemma find_subdirectories:
  "find (\<lambda>e. file_type e = Directory \<and> name e = p) (entries cur) =
     (case subdirectories cur p of
        [] \<Rightarrow> None
      | sub # others \<Rightarrow> Some (FileInfoDir sub))"
  unfolding subdirectories_def by (rule find_directory)

lemma getFileInfo_loop_step:
  assumes "i < length ps - 1"
  shows "getFileInfo_loop ps i cur =
     (case subdirectories cur (ps ! i) of
        [] \<Rightarrow> None
      | sub # others \<Rightarrow> getFileInfo_loop ps (i + 1) sub)"
  using assms
  by (subst getFileInfo_loop.simps)
     (simp add: find_subdirectories split: list.splits)

lemma getFileInfo_loop_stop:
  assumes "\<not> i < length ps - 1"
  shows "getFileInfo_loop ps i cur = Some cur"
  using assms by (subst getFileInfo_loop.simps) simp

lemma getFileInfo_loop_not_found:
  assumes "i < length ps"
  shows "((case getFileInfo_loop ps i cur of
            None \<Rightarrow> None
          | Some c \<Rightarrow> find (\<lambda>e. name e = ps ! (length ps - 1)) (entries c)) = None)
         = spec_not_found cur (drop i ps)"
  using assms
proof (induction ps i cur rule: getFileInfo_loop.induct)
  case (1 ps i cur)
  show ?case
  proof (cases "i < length ps - 1")
    case True
    then have d: "drop i ps = ps ! i # ps ! (i + 1) # drop (i + 2) ps"
      by (simp add: Cons_nth_drop_Suc)
    show ?thesis
    proof (cases "subdirectories cur (ps ! i)")
      case Nil
      with True d show ?thesis
        by (simp add: getFileInfo_loop_step)
    next
      case (Cons sub others)
      have f: "find (\<lambda>e. file_type e = Directory \<and> name e = ps ! i) (entries cur)
                 = Some (FileInfoDir sub)"
        using Cons by (simp add: find_subdirectories)
      have "Suc i < length ps" using True by simp
      with "1.IH"[OF True f refl] 
      have ih: "((case getFileInfo_loop ps (i + 1) sub of
            None \<Rightarrow> None
          | Some c \<Rightarrow> find (\<lambda>e. name e = ps ! (length ps - 1)) (entries c)) = None)
         = spec_not_found sub (drop (i + 1) ps)"
        by simp
      have d': "drop (i + 1) ps = ps ! (i + 1) # drop (i + 2) ps"
        using True by (simp add: Cons_nth_drop_Suc)
      show ?thesis
        using True Cons ih d d' by (simp add: getFileInfo_loop_step)
    qed
  next
    case False
    with "1.prems" have i: "i = length ps - 1" by simp
    with "1.prems" have d: "drop i ps = [ps ! (length ps - 1)]"
      by (metis Cons_nth_drop_Suc Suc_diff_1 drop_all le_refl length_greater_0_conv list.size(3) not_less_zero)
    show ?thesis
      using False d by (simp add: getFileInfo_loop_stop find_name_None)
  qed
qed

text \<open>
  Claim C7. \<open>getFileInfo\<close> answers \<open>null\<close> exactly when the path is \<open>null\<close>, or has no
  drive, or names a drive that is not in the mount table, or its piece sequence is not found
  under the root entry of the mounted drive: a segment before the last names no directory, or
  the last segment names no entry. A path with a mounted drive and no pieces resolves to the
  root entry of that drive.
\<close>

theorem getFileInfo_null_iff:
  "(getFileInfo fs path = None) =
     (path = None \<or>
      (\<exists>p. path = Some p \<and>
         (drive p = None \<or>
          (\<exists>label. drive p = Some label \<and>
             (drives fs label = None \<or>
              (\<exists>fsDrive. drives fs label = Some fsDrive
                  \<and> spec_not_found (rootEntry fsDrive) (pieces p)))))))
   \<and> (drive q = Some l \<and> drives fs l = Some d \<and> pieces q = []
        \<longrightarrow> getFileInfo fs (Some q) = Some (FileInfoDir (rootEntry d)))"
proof -
  have 2: "drive q = Some l \<and> drives fs l = Some d \<and> pieces q = []
        \<longrightarrow> getFileInfo fs (Some q) = Some (FileInfoDir (rootEntry d))"
    by (simp add: getFileInfo_def)
  have 1: "(getFileInfo fs path = None) =
     (path = None \<or>
      (\<exists>p. path = Some p \<and>
         (drive p = None \<or>
          (\<exists>label. drive p = Some label \<and>
             (drives fs label = None \<or>
              (\<exists>fsDrive. drives fs label = Some fsDrive
                  \<and> spec_not_found (rootEntry fsDrive) (pieces p)))))))"
  proof (cases path)
    case None
    then show ?thesis by (simp add: getFileInfo_def)
  next
    case (Some p)
    show ?thesis
    proof (cases "drive p")
      case None
      with Some show ?thesis by (simp add: getFileInfo_def)
    next
      case dl: (Some label)
      show ?thesis
      proof (cases "drives fs label")
        case None
        with Some dl show ?thesis by (simp add: getFileInfo_def)
      next
        case fd: (Some fsDrive)
        show ?thesis
        proof (cases "pieces p = []")
          case True
          with Some dl fd show ?thesis by (simp add: getFileInfo_def)
        next
          case False
          then have "0 < length (pieces p)" by simp
          from getFileInfo_loop_not_found[OF this, of "rootEntry fsDrive"]
          show ?thesis using Some dl fd False by (simp add: getFileInfo_def)
        qed
      qed
    qed
  qed
  from 1 2 show ?thesis by blast
qed



theorem getFileInfo_null_iff_witness:
  "getFileInfo
     \<lparr>drives = [''C'' \<mapsto> TransientFileSystemDrive
        (FileInfoDirectory ''/''
           [FileInfoDir (FileInfoDirectory ''docs'' [FileInfoText ''a'' (MkTextFile ''hi'')])])]\<rparr>
     (Some \<lparr>drive = Some ''C'', pieces = [], isAbsolute = True\<rparr>)
   = Some (FileInfoDir (FileInfoDirectory ''/''
           [FileInfoDir (FileInfoDirectory ''docs'' [FileInfoText ''a'' (MkTextFile ''hi'')])]))
   \<and> getFileInfo
     \<lparr>drives = [''C'' \<mapsto> TransientFileSystemDrive
        (FileInfoDirectory ''/''
           [FileInfoDir (FileInfoDirectory ''docs'' [FileInfoText ''a'' (MkTextFile ''hi'')])])]\<rparr>
     (Some \<lparr>drive = Some ''C'', pieces = [''docs'', ''b''], isAbsolute = True\<rparr>)
   = None
   \<and> getFileInfo
     \<lparr>drives = [''C'' \<mapsto> TransientFileSystemDrive
        (FileInfoDirectory ''/''
           [FileInfoDir (FileInfoDirectory ''docs'' [FileInfoText ''a'' (MkTextFile ''hi'')])])]\<rparr>
     (Some \<lparr>drive = Some ''C'', pieces = [''docs'', ''a''], isAbsolute = True\<rparr>)
   \<noteq> None
   \<and> getFileInfo
     \<lparr>drives = [''C'' \<mapsto> TransientFileSystemDrive
        (FileInfoDirectory ''/''
           [FileInfoDir (FileInfoDirectory ''docs'' [FileInfoText ''a'' (MkTextFile ''hi'')])])]\<rparr>
     (Some \<lparr>drive = Some ''C'', pieces = [''docs'', ''a'', ''x''], isAbsolute = True\<rparr>)
   = None"
proof -
  let ?root = "FileInfoDirectory ''/''
           [FileInfoDir (FileInfoDirectory ''docs'' [FileInfoText ''a'' (MkTextFile ''hi'')])]"
  let ?fs = "\<lparr>drives = [''C'' \<mapsto> TransientFileSystemDrive ?root]\<rparr>"
  have 1: "getFileInfo ?fs (Some \<lparr>drive = Some ''C'', pieces = [], isAbsolute = True\<rparr>)
             = Some (FileInfoDir ?root)"
    using getFileInfo_null_iff[where fs="?fs" and q="\<lparr>drive = Some ''C'', pieces = [], isAbsolute = True\<rparr>"
        and l="''C''" and d="TransientFileSystemDrive ?root"]
    by simp
  have 2: "getFileInfo ?fs (Some \<lparr>drive = Some ''C'', pieces = [''docs'', ''b''], isAbsolute = True\<rparr>)
             = None"
    using getFileInfo_null_iff[where fs="?fs"
        and path="Some \<lparr>drive = Some ''C'', pieces = [''docs'', ''b''], isAbsolute = True\<rparr>"]
    by (simp add: subdirectories_def)
  have 3: "getFileInfo ?fs (Some \<lparr>drive = Some ''C'', pieces = [''docs'', ''a''], isAbsolute = True\<rparr>)
             \<noteq> None"
    using getFileInfo_null_iff[where fs="?fs"
        and path="Some \<lparr>drive = Some ''C'', pieces = [''docs'', ''a''], isAbsolute = True\<rparr>"]
    by (simp add: subdirectories_def)
  have 4: "getFileInfo ?fs (Some \<lparr>drive = Some ''C'', pieces = [''docs'', ''a'', ''x''], isAbsolute = True\<rparr>)
             = None"
    using getFileInfo_null_iff[where fs="?fs"
        and path="Some \<lparr>drive = Some ''C'', pieces = [''docs'', ''a'', ''x''], isAbsolute = True\<rparr>"]
    by (simp add: subdirectories_def)
  from 1 2 3 4 show ?thesis by blast
qed

text \<open>With unique names, the directories named \<open>p\<close> are the entry named \<open>p\<close> when it is a
  directory, and none otherwise.\<close>

lemma subdirectories_absent:
  "p \<notin> name ` set es \<Longrightarrow> [sub. FileInfoDir sub \<leftarrow> es, dir_name sub = p] = []"
proof (induction es)
  case Nil
  show ?case by simp
next
  case (Cons e es)
  then show ?case by (cases e) auto
qed

lemma subdirectories_distinct_list:
  "distinct (map name es) \<Longrightarrow>
   [sub. FileInfoDir sub \<leftarrow> es, dir_name sub = p] =
     (case find (\<lambda>e. name e = p) es of
        Some (FileInfoDir sub) \<Rightarrow> [sub]
      | _ \<Rightarrow> [])"
proof (induction es)
  case Nil
  show ?case by simp
next
  case (Cons e es)
  show ?case
  proof (cases "name e = p")
    case True
    with Cons.prems have "p \<notin> name ` set es" by auto
    from subdirectories_absent[OF this] True show ?thesis by (cases e) simp_all
  next
    case False
    with Cons show ?thesis by (cases e) simp_all
  qed
qed

lemma subdirectories_distinct:
  assumes "distinct (map name (entries cur))"
  shows "subdirectories cur p =
     (case find (\<lambda>e. name e = p) (entries cur) of
        Some (FileInfoDir sub) \<Rightarrow> [sub]
      | _ \<Rightarrow> [])"
  unfolding subdirectories_def using assms by (rule subdirectories_distinct_list)



lemma serializeFile_not_Inl: "serializable f \<Longrightarrow> serializeFile f = Inl e \<Longrightarrow> False"
  using serialize_deserialize(2)[of f] by auto

lemma serialize_fails:
  "\<not> serializable_dir d \<longrightarrow>
     (\<exists>tag. serializeDirectory d = Inl (Error (''Unrecognized or unsupported file info type: '' @ tag)))"
  "\<not> serializable f \<longrightarrow>
     (\<exists>tag. serializeFile f = Inl (Error (''Unrecognized or unsupported file info type: '' @ tag)))"
  "\<not> serializable_list fs \<longrightarrow>
     (\<exists>tag. serializeFile_map fs = Inl (Error (''Unrecognized or unsupported file info type: '' @ tag)))"
  by (induction d and f and fs rule: serializable_dir_serializable_serializable_list.induct)
     (auto split: sum.splits dest: serializeFile_not_Inl)

lemma serialize_ok:
  "serializable_dir d \<Longrightarrow> \<exists>s. serializeDirectory d = Inr s"
  using serialize_deserialize(1)[of d] by blast

lemma commit_loop_ok:
  assumes "\<forall>r\<in>set rs. \<forall>l. floppy_drive r = Some l \<longrightarrow>
             (\<exists>d. drives fs l = Some d \<and> (\<forall>tree. d = FloppyFileSystemDrive tree \<longrightarrow> serializable_dir tree))"
  shows "commit_loop js fs rs = Inr (map (spec_commit_record js fs) rs)"
  using assms
proof (induction rs)
  case Nil
  show ?case by simp
next
  case (Cons r rs)
  then have ih: "commit_loop js fs rs = Inr (map (spec_commit_record js fs) rs)"
    by simp
  show ?case
  proof (cases "floppy_drive r")
    case None
    with ih show ?thesis by (simp add: spec_commit_record_def)
  next
    case (Some l)
    with Cons.prems obtain d where d: "drives fs l = Some d"
      and s: "\<forall>tree. d = FloppyFileSystemDrive tree \<longrightarrow> serializable_dir tree"
      by auto
    show ?thesis
    proof (cases d)
      case (TransientFileSystemDrive tree)
      with Some d ih show ?thesis by (simp add: spec_commit_record_def)
    next
      case (FloppyFileSystemDrive tree)
      with s have "serializable_dir tree" by simp
      from serialize_ok[OF this] obtain ser where "serializeDirectory tree = Inr ser" ..
      with FloppyFileSystemDrive Some d ih show ?thesis
        by (simp add: spec_commit_record_def serialize_def)
    qed
  qed
qed

lemma commit_loop_fails:
  assumes "\<forall>r\<in>set rs. \<forall>l. floppy_drive r = Some l \<longrightarrow> drives fs l \<noteq> None"
    and "\<exists>r\<in>set rs. \<exists>l tree. floppy_drive r = Some l \<and> drives fs l = Some (FloppyFileSystemDrive tree)
            \<and> \<not> serializable_dir tree"
  shows "\<exists>tag. commit_loop js fs rs = Inl (Error (''Unrecognized or unsupported file info type: '' @ tag))"
  using assms
proof (induction rs)
  case Nil
  then show ?case by simp
next
  case (Cons r rs)
  let ?bad = "\<lambda>r. \<exists>l tree. floppy_drive r = Some l \<and> drives fs l = Some (FloppyFileSystemDrive tree)
            \<and> \<not> serializable_dir tree"
  have m: "\<forall>r\<in>set rs. \<forall>l. floppy_drive r = Some l \<longrightarrow> drives fs l \<noteq> None"
    using Cons.prems(1) by simp
  have rest: "(\<exists>x\<in>set rs. ?bad x) \<Longrightarrow>
     \<exists>tag. commit_loop js fs rs = Inl (Error (''Unrecognized or unsupported file info type: '' @ tag))"
    using Cons.IH[OF m] by blast
  show ?case
  proof (cases "?bad r")
    case True
    then obtain l tree where l: "floppy_drive r = Some l" "drives fs l = Some (FloppyFileSystemDrive tree)"
      "\<not> serializable_dir tree" by blast
    from serialize_fails(1)[of tree] l(3)
    obtain tag where "serializeDirectory tree = Inl (Error (''Unrecognized or unsupported file info type: '' @ tag))"
      by blast
    with l show ?thesis by (simp add: serialize_def)
  next
    case False
    with Cons.prems(2) have "\<exists>x\<in>set rs. ?bad x" by auto
    from rest[OF this] obtain tag where
      t: "commit_loop js fs rs = Inl (Error (''Unrecognized or unsupported file info type: '' @ tag))" ..
    show ?thesis
    proof (cases "floppy_drive r")
      case None
      with t show ?thesis by simp
    next
      case (Some l)
      with Cons.prems(1) obtain d where d: "drives fs l = Some d" by auto
      show ?thesis
      proof (cases d)
        case (TransientFileSystemDrive tree)
        with Some d t show ?thesis by simp
      next
        case (FloppyFileSystemDrive tree)
        with False Some d have "serializable_dir tree" by auto
        from serialize_ok[OF this] obtain ser where "serializeDirectory tree = Inr ser" ..
        with FloppyFileSystemDrive Some d t show ?thesis by (simp add: serialize_def)
      qed
    qed
  qed
qed

text \<open>
  Claim C3 fails: \<open>commit\<close> does not end normally for every mount table. The tree of a
  mounted floppy can hold an executable (\<open>addItem\<close> accepts one); \<open>serialize\<close> then throws,
  and so does \<open>commit\<close>.
\<close>

theorem commit_counterexample:
  "commit \<lparr>parse = (\<lambda>s. None), stringify = (\<lambda>c. ''new'')\<rparr>
     \<lparr>drives = [''A'' \<mapsto> FloppyFileSystemDrive (FileInfoDirectory ''/'' [FileInfoExecutable ''run''])]\<rparr>
     (Some [\<lparr>floppy_name = ''work'', floppy_drive = Some ''A'', floppy_data = ''old''\<rparr>])
   = Inl (Error ''Unrecognized or unsupported file info type: exe'')"
  by (simp add: commit_def getFloppyData_def serialize_def)

text \<open>A record whose label is not in the mount table makes \<open>commit\<close> throw a \<open>TypeError\<close>.\<close>

lemma commit_unmounted_label:
  "commit \<lparr>parse = (\<lambda>s. None), stringify = (\<lambda>c. ''new'')\<rparr>
     \<lparr>drives = [''C'' \<mapsto> TransientFileSystemDrive_new]\<rparr>
     (Some [\<lparr>floppy_name = ''work'', floppy_drive = Some ''A'', floppy_data = ''old''\<rparr>])
   = Inl TypeError"
  by (simp add: commit_def getFloppyData_def)

text \<open>
  Claim C3, amended. Let every record of the persisted array that has a drive label have it
  mounted. If the tree of every floppy mounted at the label of a record holds only
  directories, text files and binary files, \<open>commit\<close> ends normally and writes the whole
  array back, where each record with a label has its data replaced by the text of the
  serialized tree when the label holds a floppy, and its drive set to \<open>null\<close> when the label
  holds a drive that is no floppy, and each record without a label is unchanged. Otherwise
  \<open>commit\<close> fails with the error of an unsupported file kind and writes nothing.
\<close>

theorem commit_amended:
  assumes "\<forall>r\<in>set (getFloppyData store). \<forall>l. floppy_drive r = Some l \<longrightarrow> drives fs l \<noteq> None"
  shows "if (\<forall>r\<in>set (getFloppyData store). \<forall>l tree.
               floppy_drive r = Some l \<and> drives fs l = Some (FloppyFileSystemDrive tree)
                 \<longrightarrow> serializable_dir tree)
         then commit js fs store = Inr (Some (map (spec_commit_record js fs) (getFloppyData store)))
         else (\<exists>tag. commit js fs store
                 = Inl (Error (''Unrecognized or unsupported file info type: '' @ tag)))"
proof (cases "\<forall>r\<in>set (getFloppyData store). \<forall>l tree.
               floppy_drive r = Some l \<and> drives fs l = Some (FloppyFileSystemDrive tree)
                 \<longrightarrow> serializable_dir tree")
  case True
  with assms have "\<forall>r\<in>set (getFloppyData store). \<forall>l. floppy_drive r = Some l \<longrightarrow>
             (\<exists>d. drives fs l = Some d \<and> (\<forall>tree. d = FloppyFileSystemDrive tree \<longrightarrow> serializable_dir tree))"
    by fastforce
  from commit_loop_ok[OF this] True show ?thesis
    by (simp add: commit_def)
next
  case False
  then have "\<exists>r\<in>set (getFloppyData store). \<exists>l tree. floppy_drive r = Some l
       \<and> drives fs l = Some (FloppyFileSystemDrive tree) \<and> \<not> serializable_dir tree"
    by blast
  from commit_loop_fails[OF assms this, of js] False show ?thesis
    by (auto simp: commit_def)
qed



theorem commit_amended_witness:
  "commit \<lparr>parse = (\<lambda>s. None), stringify = (\<lambda>c. ''new'')\<rparr>
     \<lparr>drives = [''C'' \<mapsto> TransientFileSystemDrive (FileInfoDirectory ''/'' []),
                ''A'' \<mapsto> FloppyFileSystemDrive
                   (FileInfoDirectory ''/'' [FileInfoDir (FileInfoDirectory ''docs'' [])])]\<rparr>
     (Some [\<lparr>floppy_name = ''work'', floppy_drive = Some ''A'', floppy_data = ''old''\<rparr>,
            \<lparr>floppy_name = ''gone'', floppy_drive = Some ''C'', floppy_data = ''x''\<rparr>,
            \<lparr>floppy_name = ''spare'', floppy_drive = None, floppy_data = ''y''\<rparr>])
   = Inr (Some [\<lparr>floppy_name = ''work'', floppy_drive = Some ''A'', floppy_data = ''new''\<rparr>,
            \<lparr>floppy_name = ''gone'', floppy_drive = None, floppy_data = ''x''\<rparr>,
            \<lparr>floppy_name = ''spare'', floppy_drive = None, floppy_data = ''y''\<rparr>])
   \<and> (\<exists>tag. commit \<lparr>parse = (\<lambda>s. None), stringify = (\<lambda>c. ''new'')\<rparr>
     \<lparr>drives = [''A'' \<mapsto> FloppyFileSystemDrive (FileInfoDirectory ''/'' [FileInfoExecutable ''run''])]\<rparr>
     (Some [\<lparr>floppy_name = ''work'', floppy_drive = Some ''A'', floppy_data = ''old''\<rparr>])
       = Inl (Error (''Unrecognized or unsupported file info type: '' @ tag)))"
proof -
  let ?js = "\<lparr>parse = (\<lambda>s. None), stringify = (\<lambda>c. ''new'')\<rparr>"
  let ?fs = "\<lparr>drives = [''C'' \<mapsto> TransientFileSystemDrive (FileInfoDirectory ''/'' []),
                ''A'' \<mapsto> FloppyFileSystemDrive
                   (FileInfoDirectory ''/'' [FileInfoDir (FileInfoDirectory ''docs'' [])])]\<rparr>"
  let ?store = "Some [\<lparr>floppy_name = ''work'', floppy_drive = Some ''A'', floppy_data = ''old''\<rparr>,
            \<lparr>floppy_name = ''gone'', floppy_drive = Some ''C'', floppy_data = ''x''\<rparr>,
            \<lparr>floppy_name = ''spare'', floppy_drive = None, floppy_data = ''y''\<rparr>]"
  let ?fs2 = "\<lparr>drives = [''A'' \<mapsto> FloppyFileSystemDrive (FileInfoDirectory ''/'' [FileInfoExecutable ''run''])]\<rparr>"
  let ?store2 = "Some [\<lparr>floppy_name = ''work'', floppy_drive = Some ''A'', floppy_data = ''old''\<rparr>]"
  have h: "\<forall>r\<in>set (getFloppyData ?store). \<forall>l. floppy_drive r = Some l \<longrightarrow> drives ?fs l \<noteq> None"
    by (simp add: getFloppyData_def)
  have 1: "commit ?js ?fs ?store
     = Inr (Some [\<lparr>floppy_name = ''work'', floppy_drive = Some ''A'', floppy_data = ''new''\<rparr>,
            \<lparr>floppy_name = ''gone'', floppy_drive = None, floppy_data = ''x''\<rparr>,
            \<lparr>floppy_name = ''spare'', floppy_drive = None, floppy_data = ''y''\<rparr>])"
    using commit_amended[OF h, of ?js]
    by (simp add: getFloppyData_def spec_commit_record_def serialize_def)
  have h2: "\<forall>r\<in>set (getFloppyData ?store2). \<forall>l. floppy_drive r = Some l \<longrightarrow> drives ?fs2 l \<noteq> None"
    by (simp add: getFloppyData_def)
  have 2: "\<exists>tag. commit ?js ?fs2 ?store2
       = Inl (Error (''Unrecognized or unsupported file info type: '' @ tag))"
    using commit_amended[OF h2, of ?js]
    by (simp add: getFloppyData_def)
  from 1 2 show ?thesis by blast
qed

lemma insertFloppyInternal_Inr:
  assumes "insertFloppyInternal js fs label floppy = Inr (fs1, floppy1)"
  shows "\<exists>d. deserialize_record js floppy = Inr d \<and> drives fs label = None
           \<and> drives fs1 = (drives fs)(label \<mapsto> d)
           \<and> floppy1 = floppy\<lparr>floppy_drive := Some label\<rparr>"
  using assms
  by (auto simp: insertFloppyInternal_def deserialize_record_def mount_def
      split: option.splits sum.splits if_splits)

lemma insertFloppyInternal_deserialize_fails:
  assumes "deserialize_record js floppy = Inl e"
  shows "insertFloppyInternal js fs label floppy = Inl e"
  using assms
  by (auto simp: insertFloppyInternal_def deserialize_record_def split: option.splits sum.splits)

lemma FileSystem_loop_Inr:
  assumes "FileSystem_loop js fs rs = Inr (fs', rs')"
  shows "rs' = rs
         \<and> (\<forall>l d. drives fs l = Some d \<longrightarrow> drives fs' l = Some d)
         \<and> (\<forall>r\<in>set rs. \<forall>l. floppy_drive r = Some l \<longrightarrow>
               (\<exists>d. deserialize_record js r = Inr d \<and> drives fs' l = Some d))"
  using assms
proof (induction rs arbitrary: fs fs' rs')
  case Nil
  then show ?case by simp
next
  case (Cons r rs)
  show ?case
  proof (cases "floppy_drive r")
    case None
    with Cons.prems obtain rest' where
      l: "FileSystem_loop js fs rs = Inr (fs', rest')" and r: "rs' = r # rest'"
      by (auto split: sum.splits)
    from Cons.IH[OF l] r None show ?thesis by auto
  next
    case (Some label)
    with Cons.prems obtain fs1 floppy1 rest' where
      i: "insertFloppyInternal js fs label r = Inr (fs1, floppy1)"
      and l: "FileSystem_loop js fs1 rs = Inr (fs', rest')" and r: "rs' = floppy1 # rest'"
      by (auto split: sum.splits)
    from insertFloppyInternal_Inr[OF i] obtain d where
      d: "deserialize_record js r = Inr d" "drives fs label = None"
         "drives fs1 = (drives fs)(label \<mapsto> d)" "floppy1 = r\<lparr>floppy_drive := Some label\<rparr>"
      by blast
    have f1: "floppy1 = r" using d(4) Some by simp
    note ih = Cons.IH[OF l]
    have a: "rs' = r # rs" using ih r f1 by simp
    have b: "\<forall>l d. drives fs l = Some d \<longrightarrow> drives fs' l = Some d"
    proof (intro allI impI)
      fix l0 d0 assume "drives fs l0 = Some d0"
      with d(2,3) have "drives fs1 l0 = Some d0" by auto
      with ih show "drives fs' l0 = Some d0" by blast
    qed
    have "drives fs1 label = Some d" using d(3) by simp
    with ih have c0: "drives fs' label = Some d" by blast
    have c: "\<forall>x\<in>set (r # rs). \<forall>l. floppy_drive x = Some l \<longrightarrow>
               (\<exists>d. deserialize_record js x = Inr d \<and> drives fs' l = Some d)"
      using ih c0 d(1) Some by auto
    from a b c show ?thesis by blast
  qed
qed

lemma FileSystem_loop_fails:
  assumes "r \<in> set rs" and "floppy_drive r = Some l" and "deserialize_record js r = Inl e"
  shows "\<exists>e'. FileSystem_loop js fs rs = Inl e'"
  using assms
proof (induction rs arbitrary: fs)
  case Nil
  then show ?case by simp
next
  case (Cons x rs)
  show ?case
  proof (cases "x = r")
    case True
    with Cons.prems show ?thesis
      by (simp add: insertFloppyInternal_deserialize_fails)
  next
    case False
    with Cons.prems have "r \<in> set rs" by simp
    from Cons.IH[OF this Cons.prems(2,3)]
    have ih: "\<And>fs. \<exists>e'. FileSystem_loop js fs rs = Inl e'" .
    show ?thesis
    proof (cases "floppy_drive x")
      case None
      with ih[of fs] show ?thesis by auto
    next
      case (Some label)
      show ?thesis
      proof (cases "insertFloppyInternal js fs label x")
        case (Inl e0)
        with Some show ?thesis by simp
      next
        case (Inr pair)
        obtain fs1 x1 where "pair = (fs1, x1)" by (cases pair)
        with Inr Some ih[of fs1] show ?thesis by auto
      qed
    qed
  qed
qed

text \<open>
  Claim C2 fails: the data of the first record is no JSON text, the constructor passes the
  error of \<open>JSON.parse\<close> on, and no file system comes to exist; the second record, whose
  data is sound, is never mounted.
\<close>

theorem FileSystem_new_counterexample:
  "FileSystem_new
     \<lparr>parse = (\<lambda>s. if s = ''ok'' then Some \<lparr>root = SerializedDirectory ''/'' []\<rparr> else None),
      stringify = (\<lambda>c. ''ok'')\<rparr>
     (Some [\<lparr>floppy_name = ''bad'', floppy_drive = Some ''A'', floppy_data = ''oops''\<rparr>,
            \<lparr>floppy_name = ''good'', floppy_drive = Some ''B'', floppy_data = ''ok''\<rparr>])
   = Inl SyntaxError"
  by (simp add: FileSystem_new_def Let_def getFloppyData_def insertFloppyInternal_def)

text \<open>
  Claim C2, amended. When deserializing a record that has a drive label fails, the
  constructor fails as well: \<open>catch (e) { throw e; }\<close> passes the error on and
  initialization is abandoned. When the constructor succeeds, the transient drive is mounted
  at \<open>C\<close>, every record that has a drive label was deserialized and is mounted at its label,
  and the array is written back as it was read.
\<close>

theorem FileSystem_new_amended:
  "(r \<in> set (getFloppyData store) \<and> floppy_drive r = Some l \<and> deserialize_record js r = Inl e
      \<longrightarrow> (\<exists>e'. FileSystem_new js store = Inl e'))
   \<and> (FileSystem_new js store = Inr (fs, store')
      \<longrightarrow> drives fs ''C'' = Some TransientFileSystemDrive_new
          \<and> store' = Some (getFloppyData store)
          \<and> (\<forall>x\<in>set (getFloppyData store). \<forall>label. floppy_drive x = Some label \<longrightarrow>
                (\<exists>d. deserialize_record js x = Inr d \<and> drives fs label = Some d)))"
proof -
  let ?fs0 = "snd (mount \<lparr>drives = Map.empty\<rparr> ''C'' TransientFileSystemDrive_new)"
  have c: "drives ?fs0 ''C'' = Some TransientFileSystemDrive_new"
    by (simp add: mount_def)
  have 1: "r \<in> set (getFloppyData store) \<and> floppy_drive r = Some l \<and> deserialize_record js r = Inl e
      \<longrightarrow> (\<exists>e'. FileSystem_new js store = Inl e')"
  proof
    assume a: "r \<in> set (getFloppyData store) \<and> floppy_drive r = Some l \<and> deserialize_record js r = Inl e"
    then have "\<exists>e'. FileSystem_loop js ?fs0 (getFloppyData store) = Inl e'"
      using FileSystem_loop_fails[of r "getFloppyData store" l js e ?fs0] by blast
    then show "\<exists>e'. FileSystem_new js store = Inl e'"
      by (auto simp: FileSystem_new_def Let_def)
  qed
  have 2: "FileSystem_new js store = Inr (fs, store')
      \<longrightarrow> drives fs ''C'' = Some TransientFileSystemDrive_new
          \<and> store' = Some (getFloppyData store)
          \<and> (\<forall>x\<in>set (getFloppyData store). \<forall>label. floppy_drive x = Some label \<longrightarrow>
                (\<exists>d. deserialize_record js x = Inr d \<and> drives fs label = Some d))"
  proof
    assume "FileSystem_new js store = Inr (fs, store')"
    then obtain rs' where l: "FileSystem_loop js ?fs0 (getFloppyData store) = Inr (fs, rs')"
      and s: "store' = Some rs'"
      by (auto simp: FileSystem_new_def Let_def split: sum.splits)
    from FileSystem_loop_Inr[OF l] c s
    show "drives fs ''C'' = Some TransientFileSystemDrive_new
          \<and> store' = Some (getFloppyData store)
          \<and> (\<forall>x\<in>set (getFloppyData store). \<forall>label. floppy_drive x = Some label \<longrightarrow>
                (\<exists>d. deserialize_record js x = Inr d \<and> drives fs label = Some d))"
      by blast
  qed
  from 1 2 show ?thesis by blast
qed



theorem FileSystem_new_amended_witness:
  "\<lparr>floppy_name = ''bad'', floppy_drive = Some ''A'', floppy_data = ''oops''\<rparr>
     \<in> set (getFloppyData
         (Some [\<lparr>floppy_name = ''good'', floppy_drive = Some ''B'', floppy_data = ''ok''\<rparr>,
                \<lparr>floppy_name = ''bad'', floppy_drive = Some ''A'', floppy_data = ''oops''\<rparr>]))
   \<and> deserialize_record
        \<lparr>parse = (\<lambda>s. if s = ''ok'' then Some \<lparr>root = SerializedDirectory ''/'' []\<rparr> else None),
         stringify = (\<lambda>c. ''ok'')\<rparr>
        \<lparr>floppy_name = ''bad'', floppy_drive = Some ''A'', floppy_data = ''oops''\<rparr>
      = Inl SyntaxError
   \<and> (\<exists>e'. FileSystem_new
        \<lparr>parse = (\<lambda>s. if s = ''ok'' then Some \<lparr>root = SerializedDirectory ''/'' []\<rparr> else None),
         stringify = (\<lambda>c. ''ok'')\<rparr>
        (Some [\<lparr>floppy_name = ''good'', floppy_drive = Some ''B'', floppy_data = ''ok''\<rparr>,
               \<lparr>floppy_name = ''bad'', floppy_drive = Some ''A'', floppy_data = ''oops''\<rparr>])
      = Inl e')
   \<and> FileSystem_new
        \<lparr>parse = (\<lambda>s. if s = ''ok'' then Some \<lparr>root = SerializedDirectory ''/'' []\<rparr> else None),
         stringify = (\<lambda>c. ''ok'')\<rparr>
        (Some [\<lparr>floppy_name = ''good'', floppy_drive = Some ''B'', floppy_data = ''ok''\<rparr>,
               \<lparr>floppy_name = ''spare'', floppy_drive = None, floppy_data = ''oops''\<rparr>])
      = Inr (\<lparr>drives = [''C'' \<mapsto> TransientFileSystemDrive (FileInfoDirectory ''/'' []),
                        ''B'' \<mapsto> FloppyFileSystemDrive (FileInfoDirectory ''/'' [])]\<rparr>,
             Some [\<lparr>floppy_name = ''good'', floppy_drive = Some ''B'', floppy_data = ''ok''\<rparr>,
                   \<lparr>floppy_name = ''spare'', floppy_drive = None, floppy_data = ''oops''\<rparr>])
   \<and> drives \<lparr>drives = [''C'' \<mapsto> TransientFileSystemDrive (FileInfoDirectory ''/'' []),
                        ''B'' \<mapsto> FloppyFileSystemDrive (FileInfoDirectory ''/'' [])]\<rparr> ''C''
      = Some TransientFileSystemDrive_new"
proof -
  let ?js = "\<lparr>parse = (\<lambda>s. if s = ''ok'' then Some \<lparr>root = SerializedDirectory ''/'' []\<rparr> else None),
         stringify = (\<lambda>c. ''ok'')\<rparr>"
  let ?bad = "\<lparr>floppy_name = ''bad'', floppy_drive = Some ''A'', floppy_data = ''oops''\<rparr>"
  let ?good = "\<lparr>floppy_name = ''good'', floppy_drive = Some ''B'', floppy_data = ''ok''\<rparr>"
  let ?spare = "\<lparr>floppy_name = ''spare'', floppy_drive = None, floppy_data = ''oops''\<rparr>"
  let ?fs = "\<lparr>drives = [''C'' \<mapsto> TransientFileSystemDrive (FileInfoDirectory ''/'' []),
                        ''B'' \<mapsto> FloppyFileSystemDrive (FileInfoDirectory ''/'' [])]\<rparr>"
  have m: "?bad \<in> set (getFloppyData (Some [?good, ?bad]))"
    by (simp add: getFloppyData_def)
  have d: "deserialize_record ?js ?bad = Inl SyntaxError"
    by (simp add: deserialize_record_def)
  have f: "\<exists>e'. FileSystem_new ?js (Some [?good, ?bad]) = Inl e'"
    using FileSystem_new_amended[where r="?bad" and store="Some [?good, ?bad]" and l="''A''" and js="?js"
        and e=SyntaxError] m d
    by simp
  have s: "FileSystem_new ?js (Some [?good, ?spare]) = Inr (?fs, Some [?good, ?spare])"
    by (simp add: FileSystem_new_def Let_def getFloppyData_def insertFloppyInternal_def
        mount_def fromSerialized_def TransientFileSystemDrive_new_def)
  have c: "drives ?fs ''C'' = Some TransientFileSystemDrive_new"
    using FileSystem_new_amended[where store="Some [?good, ?spare]" and js="?js" and fs="?fs"
        and store'="Some [?good, ?spare]"] s
    by blast
  from m d f s c show ?thesis by blast
qed


end
